theory Spec2Isabelle
  imports Complex_Main
begin

section \<open>The NetworkEnsemble class of netclop/networkensemble.py\<close>

subsection \<open>Data model\<close>

text \<open>
  The exceptions that the module can raise. \<open>MissingResultError\<close> is the module's own
  exception; \<open>TypeError\<close>, \<open>ValueError\<close> and \<open>IndexError\<close> are Python's built-in ones
  (\<open>len(None)\<close>; unpacking an empty \<open>zip\<close> or an argument that numpy rejects;
  \<open>nets[0]\<close> on an empty sequence);
  \<open>CollaboratorError\<close> stands for whatever an external procedure (Infomap, SigClu) raises.
  \<open>ResamplingError\<close> is the error kind named by the specification; no path of the module
  raises it.
\<close>

datatype error =
    MissingResultError
  | TypeError
  | ValueError
  | IndexError
  | CollaboratorError
  | ResamplingError

type_synonym 'n NodeSet = "'n set"

type_synonym 'n Partition = "'n NodeSet list"

text \<open>
  A networkx \<open>DiGraph\<close>: the nodes in insertion order and the directed edges in iteration
  order, each edge with its optional \<open>weight\<close> attribute (\<open>None\<close>: the edge carries no
  weight attribute).
\<close>

record 'n network =
  net_nodes :: "'n list"
  net_edges :: "(('n \<times> 'n) \<times> real option) list"

text \<open>The frozen dataclass \<open>NetworkEnsemble.Config\<close>.\<close>

record config =
  seed :: int
  num_bootstraps :: int
  im_markov_time :: real
  im_variable_markov_time :: bool
  im_num_trials :: int

text \<open>
  The object's attributes. \<open>nodes_cache\<close> is the slot in which \<open>cached_property\<close> keeps the
  value of \<open>nodes\<close> after the first access. \<open>im_runs\<close> is not an attribute: it records, in
  order, the networks on which the external detection procedure has been run, so that the
  number of detection runs can be stated.
\<close>

record 'n network_ensemble =
  nets :: "'n network list"
  cfg :: config
  bootstraps :: "'n network list option"
  partitions :: "'n Partition list option"
  cores :: "'n Partition option"
  nodes_cache :: "'n NodeSet option"
  im_runs :: "'n network list"

text \<open>The constructor's first argument: one network, or a sequence of networks.\<close>

datatype 'n net_arg = Single "'n network" | Many "'n network list"

definition init :: "'n net_arg \<Rightarrow> config \<Rightarrow> 'n network_ensemble" where
  "init net c =
     \<lparr> nets = (case net of Many ns \<Rightarrow> ns | Single n \<Rightarrow> [n]),
       cfg = c,
       bootstraps = None,
       partitions = None,
       cores = None,
       nodes_cache = None,
       im_runs = [] \<rparr>"

subsection \<open>External procedures\<close>

text \<open>
  The Infomap run on one network with the configured options: the rows
  (\<open>name\<close>, \<open>module_id\<close>) of its result data frame, or an error.
\<close>

type_synonym 'n infomap = "config \<Rightarrow> 'n network \<Rightarrow> error + ('n \<times> nat) list"

text \<open>
  The generator \<open>numpy.random.default_rng(seed)\<close>: \<open>draw seed lam i j\<close> is the variate that
  lands in row \<open>i\<close>, column \<open>j\<close> of the array that \<open>poisson\<close> fills row by row for the rate
  vector \<open>lam\<close>.
\<close>

type_synonym draws = "int \<Rightarrow> real list \<Rightarrow> nat \<Rightarrow> nat \<Rightarrow> nat"

text \<open>
  \<open>np.random.default_rng(seed)\<close>: a negative seed is a \<open>ValueError\<close>; otherwise the
  generator is determined by its seed.
\<close>

definition default_rng :: "int \<Rightarrow> error + int" where
  "default_rng s = (if s < 0 then Inl ValueError else Inr s)"

text \<open>
  The largest rate that numpy's Poisson sampler accepts (\<open>POISSON_LAM_MAX\<close>, the
  double nearest to \<open>2^63 - 1 - 10 * sqrt (2^63 - 1)\<close>).
\<close>

definition poisson_lam_max :: real where
  "poisson_lam_max = 9223372006484770816"

text \<open>
  \<open>rng.poisson(lam=weights.reshape(1, -1), size=(B, n))\<close>: a negative dimension, a
  negative rate or a rate above \<open>poisson_lam_max\<close> is a \<open>ValueError\<close>; a rate of zero
  always gives the variate zero.
\<close>

definition rng_poisson :: "draws \<Rightarrow> int \<Rightarrow> real list \<Rightarrow> int \<Rightarrow> nat \<Rightarrow> error + nat list list" where
  "rng_poisson draw s lam B n =
     (if B < 0 \<or> (\<exists>l \<in> set lam. l < 0 \<or> poisson_lam_max < l) then Inl ValueError
      else Inr (map (\<lambda>i. map (\<lambda>j. if lam ! j = 0 then 0 else draw s lam i j) [0..<n])
                    [0..<nat B]))"

text \<open>The significance clustering collaborator: construction, \<open>run()\<close> and its \<open>cores\<close>.\<close>

type_synonym 'n sigclu_run = "'n Partition list \<Rightarrow> error + 'n Partition"

text \<open>\<open>nx.get_edge_attributes(net, 'weight').items()\<close>: the edges that carry a weight.\<close>

definition get_edge_attributes :: "'n network \<Rightarrow> (('n \<times> 'n) \<times> real) list" where
  "get_edge_attributes net =
     List.map_filter (\<lambda>(k, d). case d of None \<Rightarrow> None | Some w \<Rightarrow> Some (k, w)) (net_edges net)"

text \<open>
  \<open>nx.set_edge_attributes(G, attrs)\<close> with \<open>attrs\<close> a dictionary from edges to
  \<open>{"weight": w}\<close>: every edge of \<open>G\<close> that is a key gets the new weight (a later entry of
  the dictionary replaces an earlier one), other edges are left as they are.
\<close>

definition set_edge_attributes :: "'n network \<Rightarrow> (('n \<times> 'n) \<times> nat) list \<Rightarrow> 'n network" where
  "set_edge_attributes G attrs =
     G\<lparr>net_edges :=
         map (\<lambda>(k, d). case map_of (rev attrs) k of None \<Rightarrow> (k, d) | Some w \<Rightarrow> (k, Some (real w)))
             (net_edges G)\<rparr>"

text \<open>
  Modelled from the spec: \<open>flatten_partition\<close> of \<open>netutils\<close>, which is not among the
  sources: the union of all NodeSets appearing in the partition.
\<close>

definition flatten_partition :: "'n Partition \<Rightarrow> 'n NodeSet" where
  "flatten_partition p = \<Union> (set p)"

subsection \<open>Accessors\<close>

text \<open>
  The cached property \<open>nodes\<close>: the first access computes the union of the node views of
  all source networks and stores it; every later access returns the stored value.
\<close>

definition nodes :: "'n network_ensemble \<Rightarrow> 'n NodeSet \<times> 'n network_ensemble" where
  "nodes e =
     (case nodes_cache e of
        Some v \<Rightarrow> (v, e)
      | None \<Rightarrow>
          (let v = \<Union> (set (map (\<lambda>net. set (net_nodes net)) (nets e)))
           in (v, e\<lparr>nodes_cache := Some v\<rparr>)))"

definition unstable_nodes :: "'n network_ensemble \<Rightarrow> (error + 'n NodeSet) \<times> 'n network_ensemble" where
  "unstable_nodes e =
     (case cores e of
        None \<Rightarrow> (Inl MissingResultError, e)
      | Some c \<Rightarrow> (case nodes e of (ns, e') \<Rightarrow> (Inr (ns - flatten_partition c), e')))"

definition is_ensemble :: "'n network_ensemble \<Rightarrow> bool" where
  "is_ensemble e = (length (nets e) > 1)"

text \<open>\<open>len(self.bootstraps)\<close> is a \<open>TypeError\<close> while \<open>bootstraps\<close> is \<open>None\<close>.\<close>

definition is_bootstrapped :: "'n network_ensemble \<Rightarrow> error + bool" where
  "is_bootstrapped e =
     (case bootstraps e of
        None \<Rightarrow> Inl TypeError
      | Some bs \<Rightarrow> Inr (int (length bs) = num_bootstraps (cfg e)))"

subsection \<open>Community detection\<close>

text \<open>
  \<open>groupby("module_id")["name"].apply(set).tolist()\<close>: one set of names per module
  identifier, in increasing order of the identifiers.
\<close>

definition group_modules :: "('n \<times> nat) list \<Rightarrow> 'n Partition" where
  "group_modules rows =
     map (\<lambda>m. set (map fst (filter (\<lambda>r. snd r = m) rows))) (sort (remdups (map snd rows)))"

definition im_partition ::
  "'n infomap \<Rightarrow> 'n network_ensemble \<Rightarrow> 'n network \<Rightarrow> (error + 'n Partition) \<times> 'n network_ensemble" where
  "im_partition im e net =
     (let e' = e\<lparr>im_runs := im_runs e @ [net]\<rparr>
      in case im (cfg e) net of
           Inl err \<Rightarrow> (Inl err, e')
         | Inr rows \<Rightarrow> (Inr (group_modules rows), e'))"

text \<open>
  The list comprehension \<open>[self.im_partition(net) for net in ns]\<close>: the networks are
  partitioned in order, and the first error ends the comprehension.
\<close>

fun im_partition_all ::
  "'n infomap \<Rightarrow> 'n network_ensemble \<Rightarrow> 'n network list \<Rightarrow> (error + 'n Partition list) \<times> 'n network_ensemble" where
  "im_partition_all im e [] = (Inr [], e)"
| "im_partition_all im e (net # ns) =
     (case im_partition im e net of
        (Inl err, e1) \<Rightarrow> (Inl err, e1)
      | (Inr p, e1) \<Rightarrow>
          (case im_partition_all im e1 ns of
             (Inl err, e2) \<Rightarrow> (Inl err, e2)
           | (Inr ps, e2) \<Rightarrow> (Inr (p # ps), e2)))"

subsection \<open>Resampling of the edge weights\<close>

definition bootstrap ::
  "draws \<Rightarrow> 'n network_ensemble \<Rightarrow> 'n network \<Rightarrow> (error + unit) \<times> 'n network_ensemble" where
  "bootstrap draw e net =
     (let items = get_edge_attributes net in
      if items = [] then (Inl ValueError, e)
      else
        let edges = map fst items;
            weights = map snd items;
            num_edges = length edges
        in case default_rng (seed (cfg e)) of
             Inl err \<Rightarrow> (Inl err, e)
           | Inr rng \<Rightarrow>
               (case rng_poisson draw rng weights (num_bootstraps (cfg e)) num_edges of
                  Inl err \<Rightarrow> (Inl err, e)
                | Inr new_weights \<Rightarrow>
                    (Inr (),
                     e\<lparr>bootstraps :=
                         Some (map (\<lambda>i. set_edge_attributes net
                                           (map (\<lambda>j. (edges ! j, new_weights ! i ! j))
                                                [0..<num_edges]))
                                   [0..<nat (num_bootstraps (cfg e))])\<rparr>)))"

subsection \<open>The two operations of the pipeline\<close>

definition partition_ens ::
  "'n infomap \<Rightarrow> draws \<Rightarrow> 'n network_ensemble \<Rightarrow> (error + unit) \<times> 'n network_ensemble" where
  "partition_ens im draw e =
     (if is_ensemble e then
        (case im_partition_all im e (nets e) of
           (Inl err, e1) \<Rightarrow> (Inl err, e1)
         | (Inr ps, e1) \<Rightarrow> (Inr (), e1\<lparr>partitions := Some ps\<rparr>))
      else
        (case nets e of
           [] \<Rightarrow> (Inl IndexError, e)
         | net # _ \<Rightarrow>
             (case bootstrap draw e net of
                (Inl err, e1) \<Rightarrow> (Inl err, e1)
              | (Inr _, e1) \<Rightarrow>
                  (case bootstraps e1 of
                     None \<Rightarrow> (Inl TypeError, e1)
                   | Some bs \<Rightarrow>
                       (case im_partition_all im e1 bs of
                          (Inl err, e2) \<Rightarrow> (Inl err, e2)
                        | (Inr ps, e2) \<Rightarrow> (Inr (), e2\<lparr>partitions := Some ps\<rparr>))))))"

text \<open>
  \<open>sigclu(upset_config, **kwargs)\<close>: \<open>sc\<close> is the collaborator with the keyword arguments
  applied, \<open>upset\<close> its export step, run only when \<open>upset_config\<close> is given.
\<close>

definition sigclu ::
  "'n sigclu_run \<Rightarrow> ('u \<Rightarrow> error option) \<Rightarrow> 'u option \<Rightarrow> 'n network_ensemble
     \<Rightarrow> (error + unit) \<times> 'n network_ensemble" where
  "sigclu sc upset upset_config e =
     (case partitions e of
        None \<Rightarrow> (Inl MissingResultError, e)
      | Some ps \<Rightarrow>
          (case sc ps of
             Inl err \<Rightarrow> (Inl err, e)
           | Inr c \<Rightarrow>
               (let e' = e\<lparr>cores := Some c\<rparr>
                in case upset_config of
                     None \<Rightarrow> (Inr (), e')
                   | Some u \<Rightarrow>
                       (case upset u of None \<Rightarrow> (Inr (), e') | Some err \<Rightarrow> (Inl err, e')))))"

subsection \<open>Example inputs\<close>

text \<open>
  A single network on four nodes, \<open>D\<close> isolated, with one zero-weight edge; a network
  whose only edge carries no weight; two distinct three-node networks; a network whose
  only edge has weight \<open>2^63\<close>.
\<close>

definition scenario_net :: "string network" where
  "scenario_net =
     \<lparr> net_nodes = [''A'', ''B'', ''C'', ''D''],
       net_edges = [((''A'', ''B''), Some 5), ((''B'', ''C''), Some 3), ((''C'', ''A''), Some 0)] \<rparr>"

definition unweighted_net :: "string network" where
  "unweighted_net =
     \<lparr> net_nodes = [''A'', ''B''], net_edges = [((''A'', ''B''), None)] \<rparr>"

definition chain_net :: "string network" where
  "chain_net =
     \<lparr> net_nodes = [''A'', ''B'', ''C''],
       net_edges = [((''A'', ''B''), Some 1), ((''B'', ''C''), Some 2)] \<rparr>"

definition star_net :: "string network" where
  "star_net =
     \<lparr> net_nodes = [''X'', ''Y'', ''Z''],
       net_edges = [((''X'', ''Y''), Some 4), ((''X'', ''Z''), Some 1)] \<rparr>"


definition scenario_cfg :: config where
  "scenario_cfg =
     \<lparr> seed = 42, num_bootstraps = 2, im_markov_time = 1, im_variable_markov_time = True,
       im_num_trials = 5 \<rparr>"

definition scenario_draw :: draws where
  "scenario_draw s lam i j = nat s + i + j"

text \<open>
  A detection procedure that puts every node in module 1, and one that does the same but
  fails on one given network.
\<close>

definition one_module :: "string infomap" where
  "one_module c net = Inr (map (\<lambda>n. (n, 1)) (net_nodes net))"

definition fails_on :: "string network \<Rightarrow> string infomap" where
  "fails_on bad c net = (if net = bad then Inl CollaboratorError else one_module c net)"

section \<open>Properties\<close>

subsection \<open>Edge attributes\<close>

lemma get_edge_attributes_empty_iff:
  "get_edge_attributes net = [] \<longleftrightarrow> (\<forall>kd \<in> set (net_edges net). snd kd = None)"
  by (auto simp: get_edge_attributes_def List.map_filter_def filter_empty_conv split: option.splits)




lemma set_edge_attributes_nodes [simp]:
  "net_nodes (set_edge_attributes G attrs) = net_nodes G"
  by (simp add: set_edge_attributes_def)

lemma set_edge_attributes_keys [simp]:
  "map fst (net_edges (set_edge_attributes G attrs)) = map fst (net_edges G)"
  by (auto simp: set_edge_attributes_def split: option.splits)


subsection \<open>Reading results that do not exist yet\<close>

text \<open>
  C5. While \<open>cores\<close> is \<open>None\<close>, the accessor \<open>unstable_nodes\<close> raises
  \<open>MissingResultError\<close> and leaves the object as it was; it returns no value, so in
  particular no empty set.
\<close>

theorem unstable_nodes_missing_cores:
  "cores e = None \<Longrightarrow>
     unstable_nodes e = (Inl MissingResultError, e) \<and> (\<forall>v. fst (unstable_nodes e) \<noteq> Inr v)"
  by (simp add: unstable_nodes_def)

theorem unstable_nodes_missing_cores_witness:
  "unstable_nodes (init (Single scenario_net) scenario_cfg)
     = (Inl MissingResultError, init (Single scenario_net) scenario_cfg)
   \<and> fst (unstable_nodes (init (Single scenario_net) scenario_cfg)) \<noteq> Inr {}"
  using unstable_nodes_missing_cores [of "init (Single scenario_net) scenario_cfg"]
  by (simp add: init_def)

text \<open>
  C2. On a freshly constructed object, on which bootstrapping has not run,
  \<open>is_bootstrapped\<close> does not return \<open>False\<close>: taking the length of \<open>None\<close> raises
  \<open>TypeError\<close>.
\<close>

theorem is_bootstrapped_fresh_raises:
  "is_bootstrapped (init (Single scenario_net) scenario_cfg) = Inl TypeError
   \<and> is_bootstrapped (init (Single scenario_net) scenario_cfg) \<noteq> Inr False"
  by (simp add: is_bootstrapped_def init_def)

text \<open>
  Once replicates are stored, \<open>is_bootstrapped\<close> compares their number with the
  configured \<open>num_bootstraps\<close>.
\<close>

lemma is_bootstrapped_stored:
  "bootstraps e = Some bs \<Longrightarrow> is_bootstrapped e = Inr (int (length bs) = num_bootstraps (cfg e))"
  by (simp add: is_bootstrapped_def)

subsection \<open>Resampling a network without weighted edges\<close>

text \<open>
  C3 (as amended). For a network none of whose edges carries a weight, \<open>bootstrap\<close> fails
  with a \<open>ValueError\<close> (unpacking the empty \<open>zip\<close>) before any replicate is built, and
  leaves the object, so also the stored replicates, as it was.
\<close>

theorem bootstrap_no_weighted_edges:
  "\<forall>kd \<in> set (net_edges net). snd kd = None \<Longrightarrow> bootstrap draw e net = (Inl ValueError, e)"
  using get_edge_attributes_empty_iff [of net] by (simp add: bootstrap_def)

theorem bootstrap_no_weighted_edges_witness:
  "bootstrap scenario_draw (init (Single unweighted_net) scenario_cfg) unweighted_net
     = (Inl ValueError, init (Single unweighted_net) scenario_cfg)"
  using bootstrap_no_weighted_edges
          [of unweighted_net scenario_draw "init (Single unweighted_net) scenario_cfg"]
  by (simp add: unweighted_net_def)

text \<open>
  C3 as stated fails: on the network whose only edge carries no weight the error is not a
  \<open>ResamplingError\<close>.
\<close>

theorem bootstrap_no_weighted_edges_counterexample:
  "fst (bootstrap scenario_draw (init (Single unweighted_net) scenario_cfg) unweighted_net)
     \<noteq> Inl ResamplingError"
  by (simp add: bootstrap_def get_edge_attributes_def List.map_filter_def unweighted_net_def)

subsection \<open>The cached node union\<close>

lemma nodes_fresh:
  "nodes_cache e = None \<Longrightarrow>
     nodes e = (\<Union> (set (map (\<lambda>net. set (net_nodes net)) (nets e))),
                e\<lparr>nodes_cache := Some (\<Union> (set (map (\<lambda>net. set (net_nodes net)) (nets e))))\<rparr>)"
  by (simp add: nodes_def Let_def)

lemma nodes_cached:
  "nodes_cache e = Some v \<Longrightarrow> nodes e = (v, e)"
  by (simp add: nodes_def Let_def)

lemma nodes_cache_after: "nodes_cache (snd (nodes e)) = Some (fst (nodes e))"
  by (simp add: nodes_def Let_def split: option.splits)

lemma nodes_again: "nodes (snd (nodes e)) = (fst (nodes e), snd (nodes e))"
  by (simp add: nodes_cached nodes_cache_after)

text \<open>
  C9. On an object whose cache is still empty (as the constructor leaves it), \<open>nodes\<close>
  returns the union of the node identifiers of all source networks and stores it; the next
  access returns the stored value and leaves the object as it is, and it keeps returning
  that value even when the source networks are replaced afterwards: nothing is recomputed.
\<close>

theorem nodes_union_cached:
  "nodes_cache e = None \<Longrightarrow>
     fst (nodes e) = (\<Union>net \<in> set (nets e). set (net_nodes net))
     \<and> nodes (snd (nodes e)) = (fst (nodes e), snd (nodes e))
     \<and> (\<forall>ns. fst (nodes ((snd (nodes e))\<lparr>nets := ns\<rparr>)) = fst (nodes e))"
  by (simp add: nodes_def Let_def)

theorem nodes_union_cached_witness:
  "fst (nodes (init (Many [chain_net, star_net]) scenario_cfg))
     = {''A'', ''B'', ''C'', ''X'', ''Y'', ''Z''}
   \<and> fst (nodes (snd (nodes (init (Many [chain_net, star_net]) scenario_cfg))))
     = {''A'', ''B'', ''C'', ''X'', ''Y'', ''Z''}
   \<and> fst (nodes ((snd (nodes (init (Many [chain_net, star_net]) scenario_cfg)))\<lparr>nets := []\<rparr>))
     = {''A'', ''B'', ''C'', ''X'', ''Y'', ''Z''}"
  using nodes_union_cached [of "init (Many [chain_net, star_net]) scenario_cfg"]
  by (auto simp: init_def chain_net_def star_net_def)

subsection \<open>Unstable nodes\<close>

text \<open>
  C4. When \<open>cores\<close> holds a partition, \<open>unstable_nodes\<close> returns the difference between the
  (cached) node union and the union of the NodeSets of \<open>cores\<close>; the result is disjoint
  from every NodeSet of \<open>cores\<close>; and it is computed anew on each access: after \<open>cores\<close>
  is replaced, the next access returns the difference with the new cores.
\<close>

theorem unstable_nodes_difference:
  "cores e = Some c \<Longrightarrow>
     fst (unstable_nodes e) = Inr (fst (nodes e) - \<Union> (set c))
     \<and> (\<forall>s \<in> set c. (fst (nodes e) - \<Union> (set c)) \<inter> s = {})
     \<and> (\<forall>c'. fst (unstable_nodes ((snd (unstable_nodes e))\<lparr>cores := Some c'\<rparr>))
               = Inr (fst (nodes e) - \<Union> (set c')))"
  by (auto simp: unstable_nodes_def flatten_partition_def nodes_def Let_def split: option.splits prod.splits)

theorem unstable_nodes_difference_witness:
  "fst (unstable_nodes ((init (Single scenario_net) scenario_cfg)\<lparr>cores := Some [{''A'', ''B''}]\<rparr>))
     = Inr {''C'', ''D''}
   \<and> {''C'', ''D''} \<inter> {''A'', ''B''} = ({} :: string set)
   \<and> fst (unstable_nodes ((snd (unstable_nodes
            ((init (Single scenario_net) scenario_cfg)\<lparr>cores := Some [{''A'', ''B''}]\<rparr>)))
          \<lparr>cores := Some [{''A''}, {''C''}]\<rparr>))
     = Inr {''B'', ''D''}"
proof -
  let ?e = "(init (Single scenario_net) scenario_cfg)\<lparr>cores := Some [{''A'', ''B''}]\<rparr>"
  have n: "fst (nodes ?e) = {''A'', ''B'', ''C'', ''D''}"
    by (simp add: nodes_def Let_def init_def scenario_net_def)
  have d1: "{''A'', ''B'', ''C'', ''D''} - \<Union> (set [{''A'', ''B''}]) = {''C'', ''D''}" by auto
  have d2: "{''A'', ''B'', ''C'', ''D''} - \<Union> (set [{''A''}, {''C''}]) = {''B'', ''D''}" by auto
  have c: "cores ?e = Some [{''A'', ''B''}]" by simp
  from unstable_nodes_difference [OF c] n d1 d2 show ?thesis
    by simp
qed

subsection \<open>Significance clustering\<close>

text \<open>
  C6. Without a partition ensemble, \<open>sigclu\<close> raises \<open>MissingResultError\<close> and leaves the
  object as it was: \<open>partitions\<close> is still \<open>None\<close> and no detection run has taken place.
  With a partition ensemble on which the collaborator returns a partition, that partition
  is stored as \<open>cores\<close>.
\<close>

theorem sigclu_requires_partitions:
  "(partitions e = None \<longrightarrow>
      sigclu sc upset uc e = (Inl MissingResultError, e)
      \<and> partitions (snd (sigclu sc upset uc e)) = None
      \<and> im_runs (snd (sigclu sc upset uc e)) = im_runs e)
   \<and> (partitions e = Some ps \<and> sc ps = Inr c \<longrightarrow> cores (snd (sigclu sc upset uc e)) = Some c)"
  by (simp add: sigclu_def Let_def split: option.splits)

theorem sigclu_requires_partitions_witness:
  "sigclu (\<lambda>ps. Inr (hd ps)) (\<lambda>u. None) (None :: unit option) (init (Single scenario_net) scenario_cfg)
     = (Inl MissingResultError, init (Single scenario_net) scenario_cfg)
   \<and> cores (snd (sigclu (\<lambda>ps. Inr (hd ps)) (\<lambda>u. None) (Some ())
                   ((init (Single scenario_net) scenario_cfg)
                      \<lparr>partitions := Some [[{''A'', ''B'', ''C''}, {''D''}]]\<rparr>)))
     = Some [{''A'', ''B'', ''C''}, {''D''}]"
  using sigclu_requires_partitions
          [where e = "init (Single scenario_net) scenario_cfg" and sc = "\<lambda>ps. Inr (hd ps)"
             and upset = "\<lambda>u. None" and uc = "None :: unit option"]
        sigclu_requires_partitions
          [where e = "(init (Single scenario_net) scenario_cfg)
                        \<lparr>partitions := Some [[{''A'', ''B'', ''C''}, {''D''}]]\<rparr>"
             and ps = "[[{''A'', ''B'', ''C''}, {''D''}]]" and sc = "\<lambda>ps. Inr (hd ps)"
             and c = "[{''A'', ''B'', ''C''}, {''D''}]" and upset = "\<lambda>u. None" and uc = "Some ()"]
  by (simp add: init_def)

subsection \<open>Resampling a network with weighted edges\<close>


lemma bootstrap_cfg [simp]: "cfg (snd (bootstrap draw e net)) = cfg e"
  by (simp add: bootstrap_def Let_def split: sum.splits)

lemma bootstrap_frame:
  "partitions (snd (bootstrap draw e net)) = partitions e
   \<and> cores (snd (bootstrap draw e net)) = cores e
   \<and> nets (snd (bootstrap draw e net)) = nets e
   \<and> nodes_cache (snd (bootstrap draw e net)) = nodes_cache e
   \<and> im_runs (snd (bootstrap draw e net)) = im_runs e"
  by (simp add: bootstrap_def Let_def split: sum.splits)

lemma bootstrap_failure: "isl (fst (bootstrap draw e net)) \<Longrightarrow> snd (bootstrap draw e net) = e"
  by (simp add: bootstrap_def Let_def split: sum.splits if_splits)

lemma bootstrap_stores:
  assumes "bootstrap draw e net = (Inr u, e1)"
  shows "\<exists>bs. e1 = e\<lparr>bootstraps := Some bs\<rparr> \<and> int (length bs) = num_bootstraps (cfg e)"
proof -
  from assms have "0 \<le> num_bootstraps (cfg e)"
    by (auto simp: bootstrap_def Let_def rng_poisson_def split: sum.splits if_splits)
  with assms show ?thesis
    by (auto simp: bootstrap_def Let_def split: sum.splits if_splits)
qed

lemma bootstrap_seed_only:
  assumes "seed (cfg e1) = seed (cfg e2)" "num_bootstraps (cfg e1) = num_bootstraps (cfg e2)"
  shows "fst (bootstrap draw e1 net) = fst (bootstrap draw e2 net)"
    and "fst (bootstrap draw e1 net) = Inr u \<Longrightarrow>
           bootstraps (snd (bootstrap draw e1 net)) = bootstraps (snd (bootstrap draw e2 net))"
  using assms by (auto simp: bootstrap_def Let_def split: sum.splits if_splits)

lemma bootstrap_twice: "bootstrap draw (snd (bootstrap draw e net)) net = bootstrap draw e net"
  by (simp add: bootstrap_def Let_def split: sum.splits)




text \<open>The replicates of the example network, computed.\<close>

lemma scenario_items:
  "get_edge_attributes scenario_net = [((''A'', ''B''), 5), ((''B'', ''C''), 3), ((''C'', ''A''), 0)]"
  by (simp add: get_edge_attributes_def List.map_filter_def scenario_net_def)

lemma scenario_poisson:
  "rng_poisson scenario_draw 42 [5, 3, 0] 2 (Suc (Suc (Suc 0))) = Inr [[42, 43, 0], [43, 44, 0]]"
  by (simp add: rng_poisson_def poisson_lam_max_def scenario_draw_def upt_conv_Cons)

lemma scenario_bootstrap:
  "bootstrap scenario_draw (init (Single scenario_net) scenario_cfg) scenario_net
     = (Inr (),
        (init (Single scenario_net) scenario_cfg)
          \<lparr>bootstraps := Some
             [scenario_net\<lparr>net_edges :=
                [((''A'', ''B''), Some 42), ((''B'', ''C''), Some 43), ((''C'', ''A''), Some 0)]\<rparr>,
              scenario_net\<lparr>net_edges :=
                [((''A'', ''B''), Some 43), ((''B'', ''C''), Some 44), ((''C'', ''A''), Some 0)]\<rparr>]\<rparr>)"
proof -
  have c: "seed (cfg (init (Single scenario_net) scenario_cfg)) = 42"
    "num_bootstraps (cfg (init (Single scenario_net) scenario_cfg)) = 2"
    by (simp_all add: init_def scenario_cfg_def)
  have r0: "set_edge_attributes scenario_net
              [((''A'', ''B''), 42), ((''B'', ''C''), 43), ((''C'', ''A''), 0)]
            = scenario_net\<lparr>net_edges :=
                [((''A'', ''B''), Some 42), ((''B'', ''C''), Some 43), ((''C'', ''A''), Some 0)]\<rparr>"
    by (simp add: set_edge_attributes_def scenario_net_def)
  have r1: "set_edge_attributes scenario_net
              [((''A'', ''B''), 43), ((''B'', ''C''), 44), ((''C'', ''A''), 0)]
            = scenario_net\<lparr>net_edges :=
                [((''A'', ''B''), Some 43), ((''B'', ''C''), Some 44), ((''C'', ''A''), Some 0)]\<rparr>"
    by (simp add: set_edge_attributes_def scenario_net_def)
  show ?thesis
    unfolding bootstrap_def Let_def scenario_items c
    by (simp add: default_rng_def scenario_poisson upt_conv_Cons r0 r1)
qed




text \<open>
  C8. The outcome of \<open>bootstrap\<close> and the replicates it stores are determined by the
  seed, the replicate count and the input network: two objects that agree on the seed and
  the count get the same replicates whatever else they hold, and resampling the same
  network a second time on the same object reproduces outcome and state exactly.
\<close>

theorem bootstrap_deterministic:
  "(seed (cfg e1) = seed (cfg e2) \<and> num_bootstraps (cfg e1) = num_bootstraps (cfg e2) \<longrightarrow>
      fst (bootstrap draw e1 net) = fst (bootstrap draw e2 net)
      \<and> (fst (bootstrap draw e1 net) = Inr () \<longrightarrow>
           bootstraps (snd (bootstrap draw e1 net)) = bootstraps (snd (bootstrap draw e2 net))))
   \<and> bootstrap draw (snd (bootstrap draw e1 net)) net = bootstrap draw e1 net"
  using bootstrap_seed_only(1) [of e1 e2 draw net] bootstrap_seed_only(2) [of e1 e2 draw net "()"]
    bootstrap_twice [of draw e1 net]
  by blast

theorem bootstrap_deterministic_witness:
  "bootstraps (snd (bootstrap scenario_draw (init (Single scenario_net) scenario_cfg) scenario_net))
     = bootstraps (snd (bootstrap scenario_draw
                          ((init (Single scenario_net) scenario_cfg)
                             \<lparr>bootstraps := Some [], partitions := Some [], cores := Some []\<rparr>)
                          scenario_net))
   \<and> bootstraps (snd (bootstrap scenario_draw (init (Single scenario_net) scenario_cfg) scenario_net))
       \<noteq> None"
proof -
  let ?e1 = "init (Single scenario_net) scenario_cfg"
  let ?e2 = "(init (Single scenario_net) scenario_cfg)
               \<lparr>bootstraps := Some [], partitions := Some [], cores := Some []\<rparr>"
  have c: "seed (cfg ?e1) = seed (cfg ?e2) \<and> num_bootstraps (cfg ?e1) = num_bootstraps (cfg ?e2)"
    by (simp add: init_def)
  have ok: "fst (bootstrap scenario_draw ?e1 scenario_net) = Inr ()"
    by (simp add: scenario_bootstrap)
  from bootstrap_deterministic [of ?e1 ?e2 scenario_draw scenario_net] c ok
  have "bootstraps (snd (bootstrap scenario_draw ?e1 scenario_net))
          = bootstraps (snd (bootstrap scenario_draw ?e2 scenario_net))"
    by blast
  moreover have "bootstraps (snd (bootstrap scenario_draw ?e1 scenario_net)) \<noteq> None"
    by (simp add: scenario_bootstrap)
  ultimately show ?thesis by blast
qed

subsection \<open>The detection runs of one call\<close>

lemma im_partition_state:
  "snd (im_partition im e net) = e\<lparr>im_runs := im_runs e @ [net]\<rparr>"
  by (simp add: im_partition_def Let_def split: sum.splits)

lemma im_partition_result:
  "fst (im_partition im e net) = map_sum id group_modules (im (cfg e) net)"
  by (simp add: im_partition_def Let_def split: sum.splits)

lemma im_partition_all_frame:
  "snd (im_partition_all im e ns) = e\<lparr>im_runs := im_runs (snd (im_partition_all im e ns))\<rparr>"
proof (induction ns arbitrary: e)
  case Nil
  show ?case by simp
next
  case (Cons n ns)
  let ?e1 = "e\<lparr>im_runs := im_runs e @ [n]\<rparr>"
  have s: "snd (im_partition im e n) = ?e1" by (rule im_partition_state)
  show ?case
  proof (cases "im_partition im e n")
    case (Pair r e1)
    with s have e1: "e1 = ?e1" by simp
    show ?thesis
    proof (cases r)
      case (Inl err)
      with Pair e1 show ?thesis by simp
    next
      case (Inr p)
      from Cons.IH [of ?e1] have "snd (im_partition_all im ?e1 ns)
          = e\<lparr>im_runs := im_runs (snd (im_partition_all im ?e1 ns))\<rparr>"
        by (metis (no_types) network_ensemble.surjective network_ensemble.update_convs(7))
      with Pair e1 Inr show ?thesis
        by (auto split: prod.splits sum.splits)
    qed
  qed
qed

lemma im_partition_all_cfg [simp]: "cfg (snd (im_partition_all im e ns)) = cfg e"
  by (subst im_partition_all_frame) simp

lemma im_partition_all_fields:
  "bootstraps (snd (im_partition_all im e ns)) = bootstraps e
   \<and> partitions (snd (im_partition_all im e ns)) = partitions e
   \<and> cores (snd (im_partition_all im e ns)) = cores e
   \<and> nets (snd (im_partition_all im e ns)) = nets e
   \<and> nodes_cache (snd (im_partition_all im e ns)) = nodes_cache e"
  by (subst (1 2 3 4 5) im_partition_all_frame) simp

lemma im_partition_all_success:
  "\<forall>n \<in> set ns. \<not> isl (im (cfg e) n) \<Longrightarrow>
     im_partition_all im e ns
       = (Inr (map (\<lambda>n. group_modules (projr (im (cfg e) n))) ns), e\<lparr>im_runs := im_runs e @ ns\<rparr>)"
proof (induction ns arbitrary: e)
  case Nil
  show ?case by simp
next
  case (Cons n ns)
  let ?e1 = "e\<lparr>im_runs := im_runs e @ [n]\<rparr>"
  from Cons.prems obtain rows where rows: "im (cfg e) n = Inr rows"
    by (cases "im (cfg e) n") auto
  then have step: "im_partition im e n = (Inr (group_modules rows), ?e1)"
    by (simp add: im_partition_def Let_def)
  from Cons.prems have "\<forall>n \<in> set ns. \<not> isl (im (cfg ?e1) n)" by simp
  from Cons.IH [OF this] step rows show ?case by simp
qed

lemma im_partition_all_failure:
  "\<exists>n \<in> set ns. isl (im (cfg e) n) \<Longrightarrow> isl (fst (im_partition_all im e ns))"
proof (induction ns arbitrary: e)
  case Nil
  then show ?case by simp
next
  case (Cons n ns)
  let ?e1 = "e\<lparr>im_runs := im_runs e @ [n]\<rparr>"
  show ?case
  proof (cases "im (cfg e) n")
    case (Inl err)
    then show ?thesis by (simp add: im_partition_def Let_def)
  next
    case (Inr rows)
    then have step: "im_partition im e n = (Inr (group_modules rows), ?e1)"
      by (simp add: im_partition_def Let_def)
    from Cons.prems Inr have "\<exists>n \<in> set ns. isl (im (cfg ?e1) n)" by auto
    from Cons.IH [OF this] step show ?thesis
      by (auto split: prod.splits sum.splits)
  qed
qed

lemma im_partition_all_runs:
  "im_runs (snd (im_partition_all im e ns))
     = im_runs e @ take (Suc (length (takeWhile (\<lambda>n. \<not> isl (im (cfg e) n)) ns))) ns"
proof (induction ns arbitrary: e)
  case Nil
  show ?case by simp
next
  case (Cons n ns)
  let ?e1 = "e\<lparr>im_runs := im_runs e @ [n]\<rparr>"
  show ?case
  proof (cases "im (cfg e) n")
    case (Inl err)
    then show ?thesis by (simp add: im_partition_def Let_def)
  next
    case (Inr rows)
    then have step: "im_partition im e n = (Inr (group_modules rows), ?e1)"
      by (simp add: im_partition_def Let_def)
    from Cons.IH [of ?e1] step Inr show ?thesis
      by (auto split: prod.splits sum.splits)
  qed
qed

lemma im_partition_all_partitions:
  "im_partition_all im e ns = (r, e1) \<Longrightarrow> partitions e1 = partitions e \<and> bootstraps e1 = bootstraps e"
  using im_partition_all_fields [of im e ns] by simp

lemma bootstrap_partitions:
  "bootstrap draw e net = (r, e1) \<Longrightarrow> partitions e1 = partitions e"
  using bootstrap_frame [of draw e net] by simp

lemma partition_ens_failure_keeps_partitions:
  assumes "isl (fst (partition_ens im draw e))"
  shows "partitions (snd (partition_ens im draw e)) = partitions e"
proof (cases "is_ensemble e")
  case True
  obtain r e1 where all: "im_partition_all im e (nets e) = (r, e1)" by force
  with True assms obtain err where "r = Inl err"
    by (cases r) (simp_all add: partition_ens_def)
  with True all have "snd (partition_ens im draw e) = e1" by (simp add: partition_ens_def)
  with im_partition_all_partitions [OF all] show ?thesis by simp
next
  case False
  show ?thesis
  proof (cases "nets e")
    case Nil
    with False show ?thesis by (simp add: partition_ens_def)
  next
    case (Cons net rest)
    obtain rb eb where b: "bootstrap draw e net = (rb, eb)" by force
    note pb = bootstrap_partitions [OF b]
    show ?thesis
    proof (cases rb)
      case (Inl err)
      with False Cons b pb show ?thesis by (simp add: partition_ens_def)
    next
      case (Inr u)
      show ?thesis
      proof (cases "bootstraps eb")
        case None
        with False Cons b pb Inr show ?thesis by (simp add: partition_ens_def)
      next
        case (Some bs)
        obtain r e2 where all: "im_partition_all im eb bs = (r, e2)" by force
        with False Cons b Inr Some assms obtain err where "r = Inl err"
          by (cases r) (simp_all add: partition_ens_def)
        with False Cons b Inr Some all have "snd (partition_ens im draw e) = e2"
          by (simp add: partition_ens_def)
        with im_partition_all_partitions [OF all] pb show ?thesis by simp
      qed
    qed
  qed
qed

subsection \<open>The two branches of \<open>partition\<close>\<close>

lemma partition_ens_ensemble_success:
  assumes "is_ensemble e" and "\<forall>n \<in> set (nets e). \<not> isl (im (cfg e) n)"
  shows "partition_ens im draw e
           = (Inr (), e\<lparr>im_runs := im_runs e @ nets e,
                         partitions := Some (map (\<lambda>n. group_modules (projr (im (cfg e) n))) (nets e))\<rparr>)"
  using assms by (simp add: partition_ens_def im_partition_all_success)

lemma partition_ens_ensemble_bootstraps:
  assumes "is_ensemble e"
  shows "bootstraps (snd (partition_ens im draw e)) = bootstraps e"
proof -
  obtain r e1 where all: "im_partition_all im e (nets e) = (r, e1)" by force
  from im_partition_all_partitions [OF all] assms all show ?thesis
    by (cases r) (simp_all add: partition_ens_def)
qed

lemma partition_ens_single_success:
  assumes "nets e = [net]" and "bootstrap draw e net = (Inr (), e\<lparr>bootstraps := Some bs\<rparr>)"
    and "\<forall>n \<in> set bs. \<not> isl (im (cfg e) n)"
  shows "partition_ens im draw e
           = (Inr (), e\<lparr>bootstraps := Some bs, im_runs := im_runs e @ bs,
                         partitions := Some (map (\<lambda>n. group_modules (projr (im (cfg e) n))) bs)\<rparr>)"
proof -
  let ?e1 = "e\<lparr>bootstraps := Some bs\<rparr>"
  from assms(3) have "\<forall>n \<in> set bs. \<not> isl (im (cfg ?e1) n)" by simp
  from im_partition_all_success [where im = im and e = ?e1 and ns = bs, OF this] assms(1,2)
  show ?thesis
    by (simp add: partition_ens_def is_ensemble_def)
qed

lemma partition_ens_single_failure:
  assumes "nets e = [net]" and "bootstrap draw e net = (Inr (), e\<lparr>bootstraps := Some bs\<rparr>)"
    and "\<exists>n \<in> set bs. isl (im (cfg e) n)"
  shows "isl (fst (partition_ens im draw e))"
    and "bootstraps (snd (partition_ens im draw e)) = Some bs"
proof -
  let ?e1 = "e\<lparr>bootstraps := Some bs\<rparr>"
  obtain r e2 where all: "im_partition_all im ?e1 bs = (r, e2)" by force
  from assms(3) have "\<exists>n \<in> set bs. isl (im (cfg ?e1) n)" by simp
  from im_partition_all_failure [where im = im and e = ?e1 and ns = bs, OF this] all
  obtain err where r: "r = Inl err"
    by (cases r) simp_all
  from assms(1,2) all r have p: "partition_ens im draw e = (Inl err, e2)"
    by (simp add: partition_ens_def is_ensemble_def)
  from p show "isl (fst (partition_ens im draw e))" by simp
  from p im_partition_all_partitions [OF all]
  show "bootstraps (snd (partition_ens im draw e)) = Some bs" by simp
qed

lemma partition_ens_ensemble_failure:
  assumes "is_ensemble e" and "\<exists>n \<in> set (nets e). isl (im (cfg e) n)"
  shows "isl (fst (partition_ens im draw e))"
proof -
  obtain r e1 where all: "im_partition_all im e (nets e) = (r, e1)" by force
  from im_partition_all_failure [where im = im and e = e and ns = "nets e", OF assms(2)] all
  obtain err where "r = Inl err"
    by (cases r) simp_all
  with assms(1) all show ?thesis by (simp add: partition_ens_def)
qed

text \<open>The example detection procedures on the example networks.\<close>

lemma one_module_chain: "group_modules (projr (one_module c chain_net)) = [{''A'', ''B'', ''C''}]"
  by (simp add: one_module_def group_modules_def chain_net_def)

lemma one_module_star: "group_modules (projr (one_module c star_net)) = [{''X'', ''Y'', ''Z''}]"
  by (simp add: one_module_def group_modules_def star_net_def)

lemma chain_neq_star: "chain_net \<noteq> star_net"
  by (simp add: chain_net_def star_net_def)

lemma one_module_succeeds: "\<not> isl (one_module c n)"
  by (simp add: one_module_def)

lemma fails_on_bad: "isl (fails_on bad c bad)"
  by (simp add: fails_on_def)

text \<open>
  C1. \<open>partition\<close> chooses its branch by the number of source networks alone. With more
  than one, no replicate is created (\<open>bootstraps\<close> is left as it was) and, when every
  detection run succeeds, the detection procedure has run exactly once on each source
  network, in order, and \<open>partitions\<close> holds one partition per network. With exactly one,
  whenever resampling it succeeds, the replicates are stored first, their number is the
  configured \<open>num_bootstraps\<close>, and, when every detection run succeeds, the detection
  procedure has run exactly once on each replicate and \<open>partitions\<close> holds one partition
  per replicate.
\<close>

theorem partition_by_shape:
  "(is_ensemble e \<longrightarrow>
      bootstraps (snd (partition_ens im draw e)) = bootstraps e
      \<and> ((\<forall>n \<in> set (nets e). \<not> isl (im (cfg e) n)) \<longrightarrow>
           partition_ens im draw e
             = (Inr (), e\<lparr>im_runs := im_runs e @ nets e,
                           partitions := Some (map (\<lambda>n. group_modules (projr (im (cfg e) n)))
                                                   (nets e))\<rparr>)))
   \<and> (nets e = [net] \<and> bootstrap draw e net = (Inr (), e1) \<and> bootstraps e1 = Some bs
        \<and> (\<forall>n \<in> set bs. \<not> isl (im (cfg e) n)) \<longrightarrow>
      e1 = e\<lparr>bootstraps := Some bs\<rparr>
      \<and> int (length bs) = num_bootstraps (cfg e)
      \<and> partition_ens im draw e
          = (Inr (), e\<lparr>bootstraps := Some bs, im_runs := im_runs e @ bs,
                        partitions := Some (map (\<lambda>n. group_modules (projr (im (cfg e) n))) bs)\<rparr>))"
proof (intro conjI impI)
  assume "is_ensemble e"
  then show "bootstraps (snd (partition_ens im draw e)) = bootstraps e"
    by (rule partition_ens_ensemble_bootstraps)
next
  assume "is_ensemble e" and "\<forall>n \<in> set (nets e). \<not> isl (im (cfg e) n)"
  then show "partition_ens im draw e
             = (Inr (), e\<lparr>im_runs := im_runs e @ nets e,
                           partitions := Some (map (\<lambda>n. group_modules (projr (im (cfg e) n)))
                                                   (nets e))\<rparr>)"
    by (rule partition_ens_ensemble_success)
next
  assume a: "nets e = [net] \<and> bootstrap draw e net = (Inr (), e1) \<and> bootstraps e1 = Some bs
        \<and> (\<forall>n \<in> set bs. \<not> isl (im (cfg e) n))"
  with bootstrap_stores [of draw e net "()" e1]
  have e1: "e1 = e\<lparr>bootstraps := Some bs\<rparr>" and len: "int (length bs) = num_bootstraps (cfg e)"
    by auto
  show "e1 = e\<lparr>bootstraps := Some bs\<rparr>" by (rule e1)
  show "int (length bs) = num_bootstraps (cfg e)" by (rule len)
  from a e1 show "partition_ens im draw e
          = (Inr (), e\<lparr>bootstraps := Some bs, im_runs := im_runs e @ bs,
                        partitions := Some (map (\<lambda>n. group_modules (projr (im (cfg e) n))) bs)\<rparr>)"
    by (intro partition_ens_single_success) auto
qed

theorem partition_by_shape_witness:
  "partition_ens one_module scenario_draw (init (Many [chain_net, star_net]) scenario_cfg)
     = (Inr (), (init (Many [chain_net, star_net]) scenario_cfg)
                  \<lparr>im_runs := [chain_net, star_net],
                    partitions := Some [[{''A'', ''B'', ''C''}], [{''X'', ''Y'', ''Z''}]]\<rparr>)
   \<and> bootstraps (snd (partition_ens one_module scenario_draw
                        (init (Many [chain_net, star_net]) scenario_cfg))) = None
   \<and> (\<exists>bs. length bs = 2
          \<and> partition_ens one_module scenario_draw (init (Single scenario_net) scenario_cfg)
              = (Inr (), (init (Single scenario_net) scenario_cfg)
                           \<lparr>bootstraps := Some bs, im_runs := bs,
                             partitions := Some [[{''A'', ''B'', ''C'', ''D''}],
                                                 [{''A'', ''B'', ''C'', ''D''}]]\<rparr>))"
proof -
  let ?m = "init (Many [chain_net, star_net]) scenario_cfg"
  let ?s = "init (Single scenario_net) scenario_cfg"
  let ?bs = "[scenario_net\<lparr>net_edges :=
                [((''A'', ''B''), Some 42), ((''B'', ''C''), Some 43), ((''C'', ''A''), Some 0)]\<rparr>,
              scenario_net\<lparr>net_edges :=
                [((''A'', ''B''), Some 43), ((''B'', ''C''), Some 44), ((''C'', ''A''), Some 0)]\<rparr>]"
  have m1: "is_ensemble ?m" by (simp add: is_ensemble_def init_def)
  have m2: "\<forall>n \<in> set (nets ?m). \<not> isl (one_module (cfg ?m) n)"
    by (simp add: one_module_succeeds)
  have s1: "nets ?s = [scenario_net]" by (simp add: init_def)
  have s2: "bootstrap scenario_draw ?s scenario_net = (Inr (), ?s\<lparr>bootstraps := Some ?bs\<rparr>)"
    by (rule scenario_bootstrap)
  have s3: "bootstraps (?s\<lparr>bootstraps := Some ?bs\<rparr>) = Some ?bs" by simp
  have s4: "\<forall>n \<in> set ?bs. \<not> isl (one_module (cfg ?s) n)"
    by (simp add: one_module_succeeds)
  have g: "group_modules (projr (one_module c (scenario_net\<lparr>net_edges := es\<rparr>)))
             = [{''A'', ''B'', ''C'', ''D''}]" for c es
    by (simp add: one_module_def group_modules_def scenario_net_def)
  from partition_by_shape [of ?m one_module scenario_draw] m1 m2
  have a: "bootstraps (snd (partition_ens one_module scenario_draw ?m)) = bootstraps ?m"
    and b: "partition_ens one_module scenario_draw ?m
             = (Inr (), ?m\<lparr>im_runs := im_runs ?m @ nets ?m,
                           partitions := Some (map (\<lambda>n. group_modules (projr (one_module (cfg ?m) n)))
                                                   (nets ?m))\<rparr>)"
    by blast+
  from partition_by_shape [of ?s one_module scenario_draw scenario_net "?s\<lparr>bootstraps := Some ?bs\<rparr>" ?bs]
    s1 s2 s3 s4
  have c: "partition_ens one_module scenario_draw ?s
          = (Inr (), ?s\<lparr>bootstraps := Some ?bs, im_runs := im_runs ?s @ ?bs,
                        partitions := Some (map (\<lambda>n. group_modules (projr (one_module (cfg ?s) n))) ?bs)\<rparr>)"
    by blast
  have b': "partition_ens one_module scenario_draw ?m
     = (Inr (), ?m\<lparr>im_runs := [chain_net, star_net],
                    partitions := Some [[{''A'', ''B'', ''C''}], [{''X'', ''Y'', ''Z''}]]\<rparr>)"
    unfolding b by (simp add: init_def one_module_chain one_module_star)
  have a': "bootstraps (snd (partition_ens one_module scenario_draw ?m)) = None"
    unfolding a by (simp add: init_def)
  have c': "partition_ens one_module scenario_draw ?s
              = (Inr (), ?s\<lparr>bootstraps := Some ?bs, im_runs := ?bs,
                           partitions := Some [[{''A'', ''B'', ''C'', ''D''}],
                                               [{''A'', ''B'', ''C'', ''D''}]]\<rparr>)"
    unfolding c by (simp add: g) (simp add: init_def)
  have "length ?bs = 2" by simp
  with c' have "\<exists>bs. length bs = 2
          \<and> partition_ens one_module scenario_draw ?s
              = (Inr (), ?s\<lparr>bootstraps := Some bs, im_runs := bs,
                           partitions := Some [[{''A'', ''B'', ''C'', ''D''}],
                                               [{''A'', ''B'', ''C'', ''D''}]]\<rparr>)"
    by blast
  with a' b' show ?thesis by blast
qed

text \<open>
  C10. Whenever \<open>partition\<close> ends in an error, \<open>partitions\<close> holds what it held before
  the call. In particular, when a detection run raises: with several source networks
  \<open>bootstraps\<close> is unchanged too; with a single source network whose resampling
  succeeded, \<open>bootstraps\<close> already holds the new replicates.
\<close>

theorem partition_ens_failure_atomicity:
  "(isl (fst (partition_ens im draw e)) \<longrightarrow>
      partitions (snd (partition_ens im draw e)) = partitions e)
   \<and> (is_ensemble e \<and> (\<exists>n \<in> set (nets e). isl (im (cfg e) n)) \<longrightarrow>
        isl (fst (partition_ens im draw e))
        \<and> partitions (snd (partition_ens im draw e)) = partitions e
        \<and> bootstraps (snd (partition_ens im draw e)) = bootstraps e)
   \<and> (nets e = [net] \<and> bootstrap draw e net = (Inr (), e1) \<and> bootstraps e1 = Some bs
        \<and> (\<exists>n \<in> set bs. isl (im (cfg e) n)) \<longrightarrow>
        isl (fst (partition_ens im draw e))
        \<and> partitions (snd (partition_ens im draw e)) = partitions e
        \<and> bootstraps (snd (partition_ens im draw e)) = Some bs)"
proof (intro conjI impI)
  assume "isl (fst (partition_ens im draw e))"
  then show "partitions (snd (partition_ens im draw e)) = partitions e"
    by (rule partition_ens_failure_keeps_partitions)
next
  assume a: "is_ensemble e \<and> (\<exists>n \<in> set (nets e). isl (im (cfg e) n))"
  then show f: "isl (fst (partition_ens im draw e))"
    by (intro partition_ens_ensemble_failure) auto
  then show "partitions (snd (partition_ens im draw e)) = partitions e"
    by (rule partition_ens_failure_keeps_partitions)
  from a show "bootstraps (snd (partition_ens im draw e)) = bootstraps e"
    by (intro partition_ens_ensemble_bootstraps) simp
next
  assume a: "nets e = [net] \<and> bootstrap draw e net = (Inr (), e1) \<and> bootstraps e1 = Some bs
        \<and> (\<exists>n \<in> set bs. isl (im (cfg e) n))"
  with bootstrap_stores [of draw e net "()" e1]
  have e1: "e1 = e\<lparr>bootstraps := Some bs\<rparr>" by auto
  with a have n: "nets e = [net]" and b: "bootstrap draw e net = (Inr (), e\<lparr>bootstraps := Some bs\<rparr>)"
    and x: "\<exists>n \<in> set bs. isl (im (cfg e) n)" by auto
  from partition_ens_single_failure
         [where e = e and net = net and draw = draw and bs = bs and im = im, OF n b x]
  show f: "isl (fst (partition_ens im draw e))"
    and "bootstraps (snd (partition_ens im draw e)) = Some bs" by auto
  from f show "partitions (snd (partition_ens im draw e)) = partitions e"
    by (rule partition_ens_failure_keeps_partitions)
qed

theorem partition_ens_failure_atomicity_witness:
  "isl (fst (partition_ens (fails_on star_net) scenario_draw
               ((init (Many [chain_net, star_net]) scenario_cfg)\<lparr>partitions := Some [[{''A''}]]\<rparr>)))
   \<and> partitions (snd (partition_ens (fails_on star_net) scenario_draw
               ((init (Many [chain_net, star_net]) scenario_cfg)\<lparr>partitions := Some [[{''A''}]]\<rparr>)))
       = Some [[{''A''}]]
   \<and> bootstraps (snd (partition_ens (fails_on star_net) scenario_draw
               ((init (Many [chain_net, star_net]) scenario_cfg)\<lparr>partitions := Some [[{''A''}]]\<rparr>)))
       = None
   \<and> isl (fst (partition_ens
                 (fails_on (scenario_net\<lparr>net_edges :=
                    [((''A'', ''B''), Some 43), ((''B'', ''C''), Some 44), ((''C'', ''A''), Some 0)]\<rparr>))
                 scenario_draw (init (Single scenario_net) scenario_cfg)))
   \<and> partitions (snd (partition_ens
                 (fails_on (scenario_net\<lparr>net_edges :=
                    [((''A'', ''B''), Some 43), ((''B'', ''C''), Some 44), ((''C'', ''A''), Some 0)]\<rparr>))
                 scenario_draw (init (Single scenario_net) scenario_cfg)))
       = None
   \<and> bootstraps (snd (partition_ens
                 (fails_on (scenario_net\<lparr>net_edges :=
                    [((''A'', ''B''), Some 43), ((''B'', ''C''), Some 44), ((''C'', ''A''), Some 0)]\<rparr>))
                 scenario_draw (init (Single scenario_net) scenario_cfg)))
       = Some [scenario_net\<lparr>net_edges :=
                 [((''A'', ''B''), Some 42), ((''B'', ''C''), Some 43), ((''C'', ''A''), Some 0)]\<rparr>,
               scenario_net\<lparr>net_edges :=
                 [((''A'', ''B''), Some 43), ((''B'', ''C''), Some 44), ((''C'', ''A''), Some 0)]\<rparr>]"
proof -
  let ?m = "(init (Many [chain_net, star_net]) scenario_cfg)\<lparr>partitions := Some [[{''A''}]]\<rparr>"
  let ?s = "init (Single scenario_net) scenario_cfg"
  let ?r0 = "scenario_net\<lparr>net_edges :=
                [((''A'', ''B''), Some 42), ((''B'', ''C''), Some 43), ((''C'', ''A''), Some 0)]\<rparr>"
  let ?r1 = "scenario_net\<lparr>net_edges :=
                [((''A'', ''B''), Some 43), ((''B'', ''C''), Some 44), ((''C'', ''A''), Some 0)]\<rparr>"
  have m1: "is_ensemble ?m" by (simp add: is_ensemble_def init_def)
  have m2: "\<exists>n \<in> set (nets ?m). isl (fails_on star_net (cfg ?m) n)"
    by (simp add: init_def fails_on_bad)
  have s1: "nets ?s = [scenario_net]" by (simp add: init_def)
  have s2: "bootstrap scenario_draw ?s scenario_net = (Inr (), ?s\<lparr>bootstraps := Some [?r0, ?r1]\<rparr>)"
    by (rule scenario_bootstrap)
  have s3: "bootstraps (?s\<lparr>bootstraps := Some [?r0, ?r1]\<rparr>) = Some [?r0, ?r1]" by simp
  have s4: "\<exists>n \<in> set [?r0, ?r1]. isl (fails_on ?r1 (cfg ?s) n)"
    by (simp add: fails_on_bad)
  from partition_ens_failure_atomicity [of "fails_on star_net" scenario_draw ?m] m1 m2
  have m: "isl (fst (partition_ens (fails_on star_net) scenario_draw ?m))
        \<and> partitions (snd (partition_ens (fails_on star_net) scenario_draw ?m)) = partitions ?m
        \<and> bootstraps (snd (partition_ens (fails_on star_net) scenario_draw ?m)) = bootstraps ?m"
    by blast
  from partition_ens_failure_atomicity
         [of "fails_on ?r1" scenario_draw ?s scenario_net "?s\<lparr>bootstraps := Some [?r0, ?r1]\<rparr>"
             "[?r0, ?r1]"] s1 s2 s3 s4
  have s: "isl (fst (partition_ens (fails_on ?r1) scenario_draw ?s))
        \<and> partitions (snd (partition_ens (fails_on ?r1) scenario_draw ?s)) = partitions ?s
        \<and> bootstraps (snd (partition_ens (fails_on ?r1) scenario_draw ?s)) = Some [?r0, ?r1]"
    by blast
  have "partitions ?m = Some [[{''A''}]]" "bootstraps ?m = None" "partitions ?s = None"
    by (simp_all add: init_def)
  with m s show ?thesis by simp
qed

end
